theory Spec2Isabelle
  imports Complex_Main
begin

section \<open>Rasters, tables and the workspace\<close>

text \<open>
  The pipeline of \<^verbatim>\<open>src/DoD_tool.py\<close> (function \<^verbatim>\<open>DoDfin\<close>) is a straight line of
  calls into the raster engine (arcpy Spatial Analyst / Image Analyst map algebra).
  A raster is a list of rows of cells; a cell is \<open>None\<close> for NoData and \<open>Some v\<close>
  for a value. Elevations and differences are floating-point rasters, idealised here as
  \<open>real\<close>; the results of relational and Boolean operators, of Reclassify and of
  Con with integer constants are integer rasters.

  All rasters of one workspace are taken on one lattice: the same cell size
  (\<open>cellSize\<close> of the environment) and the same upper-left corner, so that the extent
  of a raster is its number of rows and columns. A local operator on two rasters works
  on the intersection of their extents (the engine's default output extent), which on a
  common corner is the shorter of the rows and of the columns. Resampling between
  lattices is the engine's work and is outside this development.
\<close>

type_synonym 'a raster = "'a option list list"

definition inside :: "'a raster \<Rightarrow> nat \<Rightarrow> nat \<Rightarrow> bool" where
  "inside r i j = (i < length r \<and> j < length (r ! i))"

definition cell :: "'a raster \<Rightarrow> nat \<Rightarrow> nat \<Rightarrow> 'a option" where
  "cell r i j = r ! i ! j"

text \<open>
  One row of the zonal statistics table. \<open>Value\<close> is the zone, \<open>COUNT\<close> the number
  of cells of the zone that have a value in the value raster, \<open>AREA\<close> their area.
  Of the other statistics of \<^verbatim>\<open>"ALL"\<close> the mean and the median are kept; the
  pipeline reads \<open>AREA\<close> and \<open>MEDIAN\<close> only. \<open>Volume\<close> is the field added by the
  pipeline: \<open>None\<close> is the NULL of a field that has been added and not yet calculated.
\<close>

record stats_row =
  Value :: int
  COUNT :: nat
  AREA :: real
  MEAN :: real
  MEDIAN :: real
  Volume :: "real option"

datatype dataset =
    FloatRaster "real raster"
  | IntRaster "int raster"
  | Table "stats_row list"

text \<open>
  The geoprocessing environment: the workspace maps dataset names to datasets.
  \<^verbatim>\<open>arcpy.env.overwriteOutput = True\<close> makes every save replace what the name held.
\<close>

record env =
  cellSize :: real
  workspace :: "string \<Rightarrow> dataset option"

datatype error =
    RasterNotFound string   \<comment> \<open>\<^verbatim>\<open>Raster(name)\<close>: no raster dataset of that name\<close>
  | TableNotFound string    \<comment> \<open>a table tool called on a name that holds no table\<close>

definition save :: "env \<Rightarrow> string \<Rightarrow> dataset \<Rightarrow> env" where
  "save e name d = e\<lparr>workspace := (workspace e)(name \<mapsto> d)\<rparr>"

text \<open>
  \<^verbatim>\<open>Raster(name)\<close> opens the raster dataset of that name; an integer raster is read
  with its values as numbers. A name that holds no raster dataset is the engine's error.
\<close>

definition Raster :: "env \<Rightarrow> string \<Rightarrow> error + real raster" where
  "Raster e name =
     (case workspace e name of
        Some (FloatRaster r) \<Rightarrow> Inr r
      | Some (IntRaster r) \<Rightarrow> Inr (map (map (map_option real_of_int)) r)
      | _ \<Rightarrow> Inl (RasterNotFound name))"

section \<open>Map algebra: local operators\<close>

text \<open>
  Every local operator of the engine gives NoData at a cell where an input is NoData.
\<close>

definition local1 :: "('a option \<Rightarrow> 'b option) \<Rightarrow> 'a raster \<Rightarrow> 'b raster" where
  "local1 f r = map (map f) r"

definition local2 ::
  "('a option \<Rightarrow> 'b option \<Rightarrow> 'c option) \<Rightarrow> 'a raster \<Rightarrow> 'b raster \<Rightarrow> 'c raster" where
  "local2 f a b = map (\<lambda>(ra, rb). map (\<lambda>(x, y). f x y) (zip ra rb)) (zip a b)"

fun minus_cell :: "real option \<Rightarrow> real option \<Rightarrow> real option" where
  "minus_cell (Some x) (Some y) = Some (x - y)"
| "minus_cell _ _ = None"

text \<open>\<^verbatim>\<open>a - b\<close> on rasters.\<close>

definition Minus :: "real raster \<Rightarrow> real raster \<Rightarrow> real raster" where
  "Minus a b = local2 minus_cell a b"

fun gt_cell :: "real \<Rightarrow> real option \<Rightarrow> int option" where
  "gt_cell c (Some x) = Some (if x > c then 1 else 0)"
| "gt_cell c None = None"

text \<open>\<^verbatim>\<open>r > c\<close> for a raster and a number: 1 where true, 0 where false.\<close>

definition GreaterThan :: "real raster \<Rightarrow> real \<Rightarrow> int raster" where
  "GreaterThan r c = local1 (gt_cell c) r"

fun lt_cell :: "real \<Rightarrow> real option \<Rightarrow> int option" where
  "lt_cell c (Some x) = Some (if x < c then 1 else 0)"
| "lt_cell c None = None"

text \<open>\<^verbatim>\<open>r < c\<close> for a raster and a number.\<close>

definition LessThan :: "real raster \<Rightarrow> real \<Rightarrow> int raster" where
  "LessThan r c = local1 (lt_cell c) r"

fun or_cell :: "int option \<Rightarrow> int option \<Rightarrow> int option" where
  "or_cell (Some x) (Some y) = Some (if x \<noteq> 0 \<or> y \<noteq> 0 then 1 else 0)"
| "or_cell _ _ = None"

text \<open>\<^verbatim>\<open>a | b\<close> on rasters (Boolean Or).\<close>

definition BooleanOr :: "int raster \<Rightarrow> int raster \<Rightarrow> int raster" where
  "BooleanOr a b = local2 or_cell a b"

text \<open>
  \<^verbatim>\<open>Reclassify(r, "Value", RemapValue(remap))\<close>: a remap entry gives the new value of
  an old one, \<open>None\<close> standing for \<^verbatim>\<open>"NODATA"\<close>. A value with no entry keeps its value
  (\<^verbatim>\<open>missing_values\<close> is left at its default \<^verbatim>\<open>"DATA"\<close>); NoData stays NoData.
\<close>

fun reclass_cell :: "(int \<times> int option) list \<Rightarrow> int option \<Rightarrow> int option" where
  "reclass_cell remap (Some v) = (case map_of remap v of Some n \<Rightarrow> n | None \<Rightarrow> Some v)"
| "reclass_cell remap None = None"

definition Reclassify :: "int raster \<Rightarrow> (int \<times> int option) list \<Rightarrow> int raster" where
  "Reclassify r remap = local1 (reclass_cell remap) r"

fun times_cell :: "int option \<Rightarrow> real option \<Rightarrow> real option" where
  "times_cell (Some b) (Some x) = Some (of_int b * x)"
| "times_cell _ _ = None"

text \<open>\<^verbatim>\<open>a * b\<close> on an integer and a floating-point raster.\<close>

definition Times :: "int raster \<Rightarrow> real raster \<Rightarrow> real raster" where
  "Times a b = local2 times_cell a b"

text \<open>
  \<^verbatim>\<open>Con(cond, t, f)\<close> with constants \<open>t\<close> and \<open>f\<close>: \<open>t\<close> where the condition is
  nonzero, \<open>f\<close> where it is zero. A cell where the condition is NoData does not
  receive the false value: it remains NoData.
\<close>

fun con_cell :: "int \<Rightarrow> int \<Rightarrow> int option \<Rightarrow> int option" where
  "con_cell t f (Some c) = Some (if c \<noteq> 0 then t else f)"
| "con_cell t f None = None"

definition Con :: "int raster \<Rightarrow> int \<Rightarrow> int \<Rightarrow> int raster" where
  "Con cond t f = local1 (con_cell t f) cond"

section \<open>Zonal statistics and the table tools\<close>

text \<open>
  The median of the values of a zone (a non-empty list): the middle one of the sorted
  values, the mean of the two middle ones when their number is even.
\<close>

definition median :: "real list \<Rightarrow> real" where
  "median xs =
     (let s = sort xs; n = length s
      in if n mod 2 = 1 then s ! (n div 2)
         else (s ! (n div 2 - 1) + s ! (n div 2)) / 2)"

definition zone_cells :: "int raster \<Rightarrow> real raster \<Rightarrow> (int option \<times> real option) list" where
  "zone_cells zones vals = concat (map (\<lambda>(rz, rv). zip rz rv) (zip zones vals))"

text \<open>
  The values of zone \<open>z\<close>: the cells of the zone that have a value in the value raster
  (\<^verbatim>\<open>ignore_nodata="DATA"\<close>: NoData cells of the value raster are left out of the
  statistics).
\<close>

definition zone_values :: "(int option \<times> real option) list \<Rightarrow> int \<Rightarrow> real list" where
  "zone_values cs z =
     List.map_filter (\<lambda>(zo, vo). if zo = Some z then vo else None) cs"

definition zone_ids :: "(int option \<times> real option) list \<Rightarrow> int list" where
  "zone_ids cs = sort (remdups (List.map_filter fst cs))"

definition zone_row :: "real \<Rightarrow> int \<Rightarrow> real list \<Rightarrow> stats_row option" where
  "zone_row cs z vs =
     (case vs of
        [] \<Rightarrow> None
      | v # ws \<Rightarrow>
          Some \<lparr> Value = z, COUNT = length vs,
                 AREA = real (length vs) * (cs * cs),
                 MEAN = sum_list vs / real (length vs),
                 MEDIAN = median vs, Volume = None \<rparr>)"

text \<open>
  \<^verbatim>\<open>ZonalStatisticsAsTable(in_zone_data, "Value", in_value_raster, out_table, "DATA", "ALL")\<close>:
  one row for each distinct value of the zone raster, in ascending order, over the cells
  of that zone that have a value; a zone with no such cell has no row. The whole zone
  raster is the zone data: no zone value is selected. The table is written to the
  workspace under \<open>out_table\<close>.
\<close>

definition zonal_table :: "real \<Rightarrow> int raster \<Rightarrow> real raster \<Rightarrow> stats_row list" where
  "zonal_table cs zones vals =
     (let c = zone_cells zones vals
      in List.map_filter (\<lambda>z. zone_row cs z (zone_values c z)) (zone_ids c))"

definition ZonalStatisticsAsTable :: "env \<Rightarrow> int raster \<Rightarrow> real raster \<Rightarrow> string \<Rightarrow> env" where
  "ZonalStatisticsAsTable e in_zone_data in_value_raster out_table =
     save e out_table (Table (zonal_table (cellSize e) in_zone_data in_value_raster))"

text \<open>
  \<^verbatim>\<open>AddField(in_table, "Volume", "DOUBLE")\<close>: every row gets the new field, NULL.
\<close>

definition AddField :: "env \<Rightarrow> string \<Rightarrow> error + env" where
  "AddField e in_table =
     (case workspace e in_table of
        Some (Table t) \<Rightarrow> Inr (save e in_table (Table (map (\<lambda>r. r\<lparr>Volume := None\<rparr>) t)))
      | _ \<Rightarrow> Inl (TableNotFound in_table))"

text \<open>
  \<^verbatim>\<open>CalculateField(in_table, "Volume", "!AREA! * !MEDIAN!", "PYTHON3")\<close>: the
  expression is evaluated once for each row of the table.
\<close>

definition CalculateField :: "env \<Rightarrow> string \<Rightarrow> error + env" where
  "CalculateField e in_table =
     (case workspace e in_table of
        Some (Table t) \<Rightarrow>
          Inr (save e in_table (Table (map (\<lambda>r. r\<lparr>Volume := Some (AREA r * MEDIAN r)\<rparr>) t)))
      | _ \<Rightarrow> Inl (TableNotFound in_table))"

section \<open>The pipeline\<close>

text \<open>The rasters of steps 1 to 5, named as the variables of \<^verbatim>\<open>DoDfin\<close>.\<close>

definition dod :: "real raster \<Rightarrow> real raster \<Rightarrow> real raster" where
  "dod later earlier = Minus later earlier"

definition dod_mask :: "real raster \<Rightarrow> real \<Rightarrow> int raster" where
  "dod_mask d mLoD = BooleanOr (GreaterThan d mLoD) (LessThan d (- mLoD))"

definition dod_binary :: "int raster \<Rightarrow> int raster" where
  "dod_binary m = Reclassify m [(0, None), (1, Some 1)]"

definition dod_filtered :: "int raster \<Rightarrow> real raster \<Rightarrow> real raster" where
  "dod_filtered b d = Times b d"

definition erosion :: "real raster \<Rightarrow> int raster" where
  "erosion f = Con (LessThan f 0) 1 0"

text \<open>
  \<^verbatim>\<open>DoDfin\<close>. The function has no check of its own and raises nothing itself: the
  only failures are those of the engine (an input name that holds no raster).
\<close>

definition DoDfin ::
  "env \<Rightarrow> string \<Rightarrow> string \<Rightarrow> real \<Rightarrow> string \<Rightarrow> string \<Rightarrow> string \<Rightarrow> string \<Rightarrow> string \<Rightarrow> string
     \<Rightarrow> error + env" where
  "DoDfin e dem_later dem_earlier mLoD dod_raw dod_threshold_mask dod_reclass
          dod_thresholded erosion_mask erosion_stats =
     (case Raster e dem_later of
        Inl err \<Rightarrow> Inl err
      | Inr later \<Rightarrow>
     (case Raster e dem_earlier of
        Inl err \<Rightarrow> Inl err
      | Inr earlier \<Rightarrow>
     (let d = dod later earlier;
          e1 = save e dod_raw (FloatRaster d);
          m = dod_mask d mLoD;
          e2 = save e1 dod_threshold_mask (IntRaster m);
          b = dod_binary m;
          e3 = save e2 dod_reclass (IntRaster b);
          f = dod_filtered b d;
          e4 = save e3 dod_thresholded (FloatRaster f);
          er = erosion f;
          e5 = save e4 erosion_mask (IntRaster er);
          e6 = ZonalStatisticsAsTable e5 er f erosion_stats
      in case AddField e6 erosion_stats of
           Inl err \<Rightarrow> Inl err
         | Inr e7 \<Rightarrow> CalculateField e7 erosion_stats)))"

text \<open>What a run left under a name: nothing when the run failed.\<close>

definition produced :: "error + env \<Rightarrow> string \<Rightarrow> dataset option" where
  "produced res name = (case res of Inl err \<Rightarrow> None | Inr e \<Rightarrow> workspace e name)"

text \<open>
  The filtered difference of a run on two elevation rasters: steps 1 to 4 in a row.
\<close>

definition run_filtered :: "real raster \<Rightarrow> real raster \<Rightarrow> real \<Rightarrow> real raster" where
  "run_filtered later earlier mLoD =
     dod_filtered (dod_binary (dod_mask (dod later earlier) mLoD)) (dod later earlier)"

text \<open>The cells of a mask that are true: inside the extent, with value 1.\<close>

definition true_cells :: "int raster \<Rightarrow> (nat \<times> nat) set" where
  "true_cells m = {(i, j). inside m i j \<and> cell m i j = Some 1}"

text \<open>A workspace of cell size \<open>cs\<close> that holds two elevation rasters and nothing else.\<close>

definition two_dems :: "real \<Rightarrow> real raster \<Rightarrow> real raster \<Rightarrow> env" where
  "two_dems cs later earlier =
     \<lparr> cellSize = cs,
       workspace = [''later'' \<mapsto> FloatRaster later, ''earlier'' \<mapsto> FloatRaster earlier] \<rparr>"

text \<open>A run on such a workspace, with the output names fixed.\<close>

definition run_two_dems :: "real \<Rightarrow> real raster \<Rightarrow> real raster \<Rightarrow> real \<Rightarrow> error + env" where
  "run_two_dems cs later earlier mLoD =
     DoDfin (two_dems cs later earlier) ''later'' ''earlier'' mLoD
       ''raw'' ''thres'' ''reclass'' ''fin'' ''ero'' ''stats''"

text \<open>
  The workspace after a run on the rasters \<open>a\<close> and \<open>b\<close>: the six saves of \<^verbatim>\<open>DoDfin\<close> in
  their order, a later save replacing an earlier one under the same name.
\<close>

definition run_outputs ::
  "(string \<Rightarrow> dataset option) \<Rightarrow> real \<Rightarrow> real raster \<Rightarrow> real raster \<Rightarrow> real
     \<Rightarrow> string \<Rightarrow> string \<Rightarrow> string \<Rightarrow> string \<Rightarrow> string \<Rightarrow> string \<Rightarrow> string \<Rightarrow> dataset option" where
  "run_outputs w cs a b mLoD n1 n2 n3 n4 n5 n6 =
     w(n1 \<mapsto> FloatRaster (dod a b),
       n2 \<mapsto> IntRaster (dod_mask (dod a b) mLoD),
       n3 \<mapsto> IntRaster (dod_binary (dod_mask (dod a b) mLoD)),
       n4 \<mapsto> FloatRaster (run_filtered a b mLoD),
       n5 \<mapsto> IntRaster (erosion (run_filtered a b mLoD)),
       n6 \<mapsto> Table (map (\<lambda>r. r\<lparr>Volume := Some (AREA r * MEDIAN r)\<rparr>)
               (zonal_table cs (erosion (run_filtered a b mLoD)) (run_filtered a b mLoD))))"

section \<open>Cells of the local operators\<close>

lemma inside_local1: "inside (local1 f r) i j = inside r i j"
  by (auto simp: inside_def local1_def)

lemma cell_local1: "inside r i j \<Longrightarrow> cell (local1 f r) i j = f (cell r i j)"
  by (simp add: inside_def local1_def cell_def)

lemma inside_local2: "inside (local2 f a b) i j = (inside a i j \<and> inside b i j)"
  by (auto simp: inside_def local2_def)

lemma cell_local2:
  "inside a i j \<Longrightarrow> inside b i j \<Longrightarrow> cell (local2 f a b) i j = f (cell a i j) (cell b i j)"
  by (simp add: inside_def local2_def cell_def)

section \<open>Cells of the pipeline stages\<close>

lemma inside_dod: "inside (dod a b) i j = (inside a i j \<and> inside b i j)"
  by (simp add: dod_def Minus_def inside_local2)

lemma cell_dod:
  "inside a i j \<Longrightarrow> inside b i j \<Longrightarrow> cell (dod a b) i j = minus_cell (cell a i j) (cell b i j)"
  by (simp add: dod_def Minus_def cell_local2)

lemma inside_dod_mask: "inside (dod_mask d m) i j = inside d i j"
  by (simp add: dod_mask_def BooleanOr_def GreaterThan_def LessThan_def inside_local2 inside_local1)

lemma cell_dod_mask:
  "inside d i j \<Longrightarrow>
   cell (dod_mask d m) i j =
     (case cell d i j of None \<Rightarrow> None | Some v \<Rightarrow> Some (if v > m \<or> v < - m then 1 else 0))"
  by (cases "cell d i j")
     (simp_all add: dod_mask_def BooleanOr_def GreaterThan_def LessThan_def
        cell_local2 cell_local1 inside_local1)

lemma inside_dod_binary: "inside (dod_binary m) i j = inside m i j"
  by (simp add: dod_binary_def Reclassify_def inside_local1)

lemma cell_dod_binary:
  "inside m i j \<Longrightarrow> cell (dod_binary m) i j = reclass_cell [(0, None), (1, Some 1)] (cell m i j)"
  by (simp add: dod_binary_def Reclassify_def cell_local1)

lemma inside_dod_filtered: "inside (dod_filtered b d) i j = (inside b i j \<and> inside d i j)"
  by (simp add: dod_filtered_def Times_def inside_local2)

lemma cell_dod_filtered:
  "inside b i j \<Longrightarrow> inside d i j \<Longrightarrow>
   cell (dod_filtered b d) i j = times_cell (cell b i j) (cell d i j)"
  by (simp add: dod_filtered_def Times_def cell_local2)

lemma inside_erosion: "inside (erosion f) i j = inside f i j"
  by (simp add: erosion_def Con_def LessThan_def inside_local1)

lemma cell_erosion:
  "inside f i j \<Longrightarrow>
   cell (erosion f) i j =
     (case cell f i j of None \<Rightarrow> None | Some v \<Rightarrow> Some (if v < 0 then 1 else 0))"
  by (cases "cell f i j")
     (simp_all add: erosion_def Con_def LessThan_def cell_local1 inside_local1)

section \<open>Rows of the zonal table\<close>

lemma set_map_filter_iff:
  "y \<in> set (List.map_filter g xs) \<longleftrightarrow> (\<exists>x \<in> set xs. g x = Some y)"
  by (induction xs) (auto split: option.splits)

lemma set_zone_cells:
  "(zo, vo) \<in> set (zone_cells zones vals) \<longleftrightarrow>
     (\<exists>i j. inside zones i j \<and> inside vals i j \<and> zo = cell zones i j \<and> vo = cell vals i j)"
  unfolding zone_cells_def inside_def cell_def
  by (auto simp: set_zip)

lemma set_zone_values: "v \<in> set (zone_values c z) \<longleftrightarrow> (Some z, Some v) \<in> set c"
  unfolding zone_values_def
  by (induction c) (auto split: option.splits if_splits)

lemma set_zone_ids: "z \<in> set (zone_ids c) \<longleftrightarrow> (\<exists>vo. (Some z, vo) \<in> set c)"
  unfolding zone_ids_def
  by (induction c) (auto split: option.splits)

lemma zone_row_Some:
  "zone_row cs z vs = Some r \<longleftrightarrow>
     vs \<noteq> [] \<and> r = \<lparr> Value = z, COUNT = length vs, AREA = real (length vs) * (cs * cs),
                       MEAN = sum_list vs / real (length vs), MEDIAN = median vs,
                       Volume = None \<rparr>"
  by (cases vs) (auto simp: zone_row_def)

lemma set_zonal_table:
  "r \<in> set (zonal_table cs zones vals) \<longleftrightarrow>
     (\<exists>z \<in> set (zone_ids (zone_cells zones vals)).
        zone_row cs z (zone_values (zone_cells zones vals) z) = Some r)"
  by (auto simp: zonal_table_def Let_def set_map_filter_iff)

lemma erosion_zone_has_value:
  assumes "inside f i j" and "cell (erosion f) i j = Some z"
  shows "\<exists>v. cell f i j = Some v \<and> z = (if v < 0 then 1 else 0)"
  using assms by (cases "cell f i j") (auto simp: cell_erosion)

lemma zonal_row_zone:
  assumes "r \<in> set (zonal_table cs (erosion f) f)"
  shows "\<exists>i j. inside f i j \<and> cell (erosion f) i j = Some (Value r)"
proof -
  from assms obtain z where z: "z \<in> set (zone_ids (zone_cells (erosion f) f))"
    and r: "zone_row cs z (zone_values (zone_cells (erosion f) f) z) = Some r"
    by (auto simp: set_zonal_table)
  from r have "Value r = z" by (auto simp: zone_row_Some)
  moreover from z obtain i j where "inside f i j" "cell (erosion f) i j = Some z"
    by (auto simp: set_zone_ids set_zone_cells)
  ultimately show ?thesis by auto
qed

lemma zonal_zone_row:
  assumes "inside f i j" and "cell (erosion f) i j = Some z"
  shows "\<exists>r \<in> set (zonal_table cs (erosion f) f). Value r = z"
proof -
  from erosion_zone_has_value [OF assms] obtain v where v: "cell f i j = Some v" by auto
  have "\<exists>i j. inside (erosion f) i j \<and> inside f i j
      \<and> Some z = cell (erosion f) i j \<and> Some v = cell f i j"
    using assms v by (intro exI [of _ i] exI [of _ j]) (simp add: inside_erosion)
  then have c: "(Some z, Some v) \<in> set (zone_cells (erosion f) f)"
    by (simp add: set_zone_cells)
  then have "z \<in> set (zone_ids (zone_cells (erosion f) f))"
    by (auto simp: set_zone_ids)
  moreover from c have "zone_values (zone_cells (erosion f) f) z \<noteq> []"
    using set_zone_values [of v "zone_cells (erosion f) f" z] by auto
  ultimately obtain r where r: "r \<in> set (zonal_table cs (erosion f) f)"
    and "zone_row cs z (zone_values (zone_cells (erosion f) f) z) = Some r"
    unfolding set_zonal_table zone_row_Some by blast
  then have "Value r = z" by (simp add: zone_row_Some)
  with r show ?thesis by blast
qed

lemma zones_of_erosion:
  "Value ` set (zonal_table cs (erosion f) f) =
     {z. \<exists>i j. inside f i j \<and> cell (erosion f) i j = Some z}"
proof (intro set_eqI iffI)
  fix z assume "z \<in> Value ` set (zonal_table cs (erosion f) f)"
  then show "z \<in> {z. \<exists>i j. inside f i j \<and> cell (erosion f) i j = Some z}"
    using zonal_row_zone [of _ cs f] by auto
next
  fix z assume "z \<in> {z. \<exists>i j. inside f i j \<and> cell (erosion f) i j = Some z}"
  then obtain i j where "inside f i j" "cell (erosion f) i j = Some z" by auto
  from zonal_zone_row [OF this, of cs] show "z \<in> Value ` set (zonal_table cs (erosion f) f)"
    by auto
qed


section \<open>The run as a whole\<close>

lemma DoDfin_Inr:
  assumes "Raster e dem_later = Inr a" and "Raster e dem_earlier = Inr b"
  shows "DoDfin e dem_later dem_earlier mLoD n1 n2 n3 n4 n5 n6 =
     Inr (e\<lparr>workspace := (workspace e)
        (n1 \<mapsto> FloatRaster (dod a b),
         n2 \<mapsto> IntRaster (dod_mask (dod a b) mLoD),
         n3 \<mapsto> IntRaster (dod_binary (dod_mask (dod a b) mLoD)),
         n4 \<mapsto> FloatRaster (run_filtered a b mLoD),
         n5 \<mapsto> IntRaster (erosion (run_filtered a b mLoD)),
         n6 \<mapsto> Table (map (\<lambda>r. r\<lparr>Volume := Some (AREA r * MEDIAN r)\<rparr>)
                 (zonal_table (cellSize e)
                    (erosion (run_filtered a b mLoD)) (run_filtered a b mLoD))))\<rparr>)"
  using assms
  by (simp add: DoDfin_def Let_def save_def ZonalStatisticsAsTable_def AddField_def
      CalculateField_def comp_def run_filtered_def)

lemma DoDfin_Inr_inputs:
  assumes "DoDfin e dem_later dem_earlier mLoD n1 n2 n3 n4 n5 n6 = Inr e'"
  shows "\<exists>a b. Raster e dem_later = Inr a \<and> Raster e dem_earlier = Inr b"
  using assms by (auto simp: DoDfin_def split: sum.splits)

lemma produced_table:
  assumes "Raster e dem_later = Inr a" and "Raster e dem_earlier = Inr b"
  shows "produced (DoDfin e dem_later dem_earlier mLoD n1 n2 n3 n4 n5 n6) n6 =
     Some (Table (map (\<lambda>r. r\<lparr>Volume := Some (AREA r * MEDIAN r)\<rparr>)
       (zonal_table (cellSize e)
          (erosion (run_filtered a b mLoD)) (run_filtered a b mLoD))))"
  by (simp add: DoDfin_Inr [OF assms] produced_def)

lemma DoDfin_artifacts:
  assumes "Raster e dem_later = Inr a" and "Raster e dem_earlier = Inr b"
    and "distinct [n1, n2, n3, n4, n5, n6]"
  shows "\<exists>e'. DoDfin e dem_later dem_earlier mLoD n1 n2 n3 n4 n5 n6 = Inr e'
     \<and> workspace e' n1 = Some (FloatRaster (dod a b))
     \<and> workspace e' n2 = Some (IntRaster (dod_mask (dod a b) mLoD))
     \<and> workspace e' n3 = Some (IntRaster (dod_binary (dod_mask (dod a b) mLoD)))
     \<and> workspace e' n4 = Some (FloatRaster (run_filtered a b mLoD))
     \<and> workspace e' n5 = Some (IntRaster (erosion (run_filtered a b mLoD)))
     \<and> workspace e' n6 = Some (Table (map (\<lambda>r. r\<lparr>Volume := Some (AREA r * MEDIAN r)\<rparr>)
           (zonal_table (cellSize e) (erosion (run_filtered a b mLoD))
              (run_filtered a b mLoD))))"
proof -
  from assms(3) have ne:
    "n1 \<noteq> n2" "n1 \<noteq> n3" "n1 \<noteq> n4" "n1 \<noteq> n5" "n1 \<noteq> n6"
    "n2 \<noteq> n3" "n2 \<noteq> n4" "n2 \<noteq> n5" "n2 \<noteq> n6"
    "n3 \<noteq> n4" "n3 \<noteq> n5" "n3 \<noteq> n6"
    "n4 \<noteq> n5" "n4 \<noteq> n6" "n5 \<noteq> n6"
    by simp_all
  show ?thesis
    unfolding DoDfin_Inr [OF assms(1,2)] using ne by simp
qed

lemma upd_agree: "((m1(k \<mapsto> v)) n = (m2(k \<mapsto> v)) n) = (n = k \<or> m1 n = m2 n)"
  by simp

lemma run_outputs_agree:
  assumes "n \<in> {n1, n2, n3, n4, n5, n6}"
  shows "run_outputs w1 cs a b mLoD n1 n2 n3 n4 n5 n6 n
       = run_outputs w2 cs a b mLoD n1 n2 n3 n4 n5 n6 n"
  unfolding run_outputs_def upd_agree using assms by blast

lemma erosion_zone_01:
  assumes "r \<in> set (zonal_table cs (erosion f) f)"
  shows "Value r = 0 \<or> Value r = 1"
proof -
  from zonal_row_zone [OF assms] obtain i j
    where "inside f i j" "cell (erosion f) i j = Some (Value r)" by auto
  from erosion_zone_has_value [OF this] show ?thesis by (auto split: if_splits)
qed

lemma no_zone_iff:
  "{z. \<exists>i j. inside F i j \<and> cell E i j = Some z} = {}
     \<longleftrightarrow> (\<forall>i j. inside F i j \<longrightarrow> cell E i j = None)"
proof
  assume L: "{z. \<exists>i j. inside F i j \<and> cell E i j = Some z} = {}"
  show "\<forall>i j. inside F i j \<longrightarrow> cell E i j = None"
  proof (intro allI impI)
    fix i j assume ij: "inside F i j"
    show "cell E i j = None"
    proof (rule ccontr)
      assume "cell E i j \<noteq> None"
      then obtain z where "cell E i j = Some z" by auto
      with ij have "z \<in> {z. \<exists>i j. inside F i j \<and> cell E i j = Some z}" by blast
      with L show False by blast
    qed
  qed
next
  assume "\<forall>i j. inside F i j \<longrightarrow> cell E i j = None"
  then show "{z. \<exists>i j. inside F i j \<and> cell E i j = Some z} = {}" by auto
qed

lemma erosion_None_iff:
  "inside f i j \<Longrightarrow> cell (erosion f) i j = None \<longleftrightarrow> cell f i j = None"
  by (cases "cell f i j") (simp_all add: cell_erosion)

section \<open>Runs on a workspace of two elevation rasters\<close>

lemma Raster_two_dems:
  "Raster (two_dems cs a b) ''later'' = Inr a" "Raster (two_dems cs a b) ''earlier'' = Inr b"
  by (simp_all add: Raster_def two_dems_def)

lemma run_two_dems_Inr:
  "run_two_dems cs a b m =
     Inr ((two_dems cs a b)\<lparr>workspace := (workspace (two_dems cs a b))
        (''raw'' \<mapsto> FloatRaster (dod a b),
         ''thres'' \<mapsto> IntRaster (dod_mask (dod a b) m),
         ''reclass'' \<mapsto> IntRaster (dod_binary (dod_mask (dod a b) m)),
         ''fin'' \<mapsto> FloatRaster (run_filtered a b m),
         ''ero'' \<mapsto> IntRaster (erosion (run_filtered a b m)),
         ''stats'' \<mapsto> Table (map (\<lambda>r. r\<lparr>Volume := Some (AREA r * MEDIAN r)\<rparr>)
                 (zonal_table cs (erosion (run_filtered a b m)) (run_filtered a b m))))\<rparr>)"
  unfolding run_two_dems_def
  by (subst DoDfin_Inr [OF Raster_two_dems]) (simp add: two_dems_def)

lemmas stage_defs = dod_def Minus_def dod_mask_def BooleanOr_def GreaterThan_def LessThan_def
  dod_binary_def Reclassify_def dod_filtered_def Times_def erosion_def Con_def
  local1_def local2_def run_filtered_def

lemmas table_defs = zonal_table_def zone_cells_def zone_ids_def zone_values_def zone_row_def
  median_def

lemma inside_single: "inside [[x]] i j \<longleftrightarrow> i = 0 \<and> j = 0"
  by (auto simp: inside_def)

section \<open>Properties of the stages\<close>

text \<open>
  C1 (as the specification states it): the erosion step gives 1 where the filtered value
  is negative and 0 otherwise, a no-data cell giving 0. On the code a no-data cell of the
  filtered difference does not give 0: the condition \<^verbatim>\<open>dod_filtered < 0\<close> is NoData
  there and \<^verbatim>\<open>Con\<close> leaves the cell NoData.
\<close>

theorem erosion_nodata_counterexample:
  "cell (erosion [[None]]) 0 0 \<noteq> Some 0"
  by (simp add: erosion_def Con_def LessThan_def local1_def cell_def)

text \<open>
  C1 (amended): the erosion mask has the extent of the filtered difference; at each of
  its cells it is 1 exactly where the filtered value is negative, 0 exactly where the
  filtered value is present and not negative, and no-data exactly where the filtered
  value is no-data.
\<close>

theorem erosion_cell:
  assumes "inside f i j"
  shows "inside (erosion f) i j
     \<and> (cell (erosion f) i j = Some 1 \<longleftrightarrow> (\<exists>v. cell f i j = Some v \<and> v < 0))
     \<and> (cell (erosion f) i j = Some 0 \<longleftrightarrow> (\<exists>v. cell f i j = Some v \<and> 0 \<le> v))
     \<and> (cell (erosion f) i j = None \<longleftrightarrow> cell f i j = None)"
  using assms by (cases "cell f i j") (auto simp: inside_erosion cell_erosion)

theorem erosion_cell_witness:
  "inside [[Some (- 2), Some 3, None :: real option]] 0 0
   \<and> cell (erosion [[Some (- 2), Some 3, None]]) 0 0 = Some 1
   \<and> cell (erosion [[Some (- 2), Some 3, None]]) 0 1 = Some 0
   \<and> cell (erosion [[Some (- 2), Some 3, None]]) 0 2 = None"
proof -
  have h: "inside [[Some (- 2), Some 3, None :: real option]] 0 0"
    "inside [[Some (- 2), Some 3, None :: real option]] 0 1"
    "inside [[Some (- 2), Some 3, None :: real option]] 0 2"
    by (simp_all add: inside_def)
  have c: "cell [[Some (- 2), Some 3, None :: real option]] 0 0 = Some (- 2)"
    "cell [[Some (- 2), Some 3, None :: real option]] 0 1 = Some 3"
    "cell [[Some (- 2), Some 3, None :: real option]] 0 2 = None"
    by (simp_all add: cell_def)
  from erosion_cell [OF h(1)] erosion_cell [OF h(2)] erosion_cell [OF h(3)] h c
  show ?thesis by simp
qed

text \<open>
  C3 (as the specification states it): the threshold mask is true exactly where the
  difference is above \<open>mLoD\<close> or below \<open>- mLoD\<close>, and a no-data cell of the difference is
  false in the mask. On the code a no-data cell is not false (0) in the mask: both
  comparisons and their disjunction are NoData there.
\<close>

theorem threshold_nodata_counterexample:
  "cell (dod_mask [[None]] (1/5)) 0 0 \<noteq> Some 0"
  by (simp add: dod_mask_def BooleanOr_def GreaterThan_def LessThan_def local1_def
      local2_def cell_def)

text \<open>
  C3 (amended): for \<open>mLoD \<ge> 0\<close> and every cell of the difference grid, the mask is true
  (1) if and only if the difference has a value strictly above \<open>mLoD\<close> or strictly below
  \<open>- mLoD\<close>; it is false (0) if and only if the difference has a value of magnitude at
  most \<open>mLoD\<close> (so a magnitude equal to \<open>mLoD\<close> is false); and it is no-data, hence not
  true, if and only if the difference is no-data.
\<close>

theorem threshold_mask_cell:
  assumes "0 \<le> mLoD" and "inside d i j"
  shows "(cell (dod_mask d mLoD) i j = Some 1
            \<longleftrightarrow> (\<exists>v. cell d i j = Some v \<and> (v > mLoD \<or> v < - mLoD)))
       \<and> (cell (dod_mask d mLoD) i j = Some 0
            \<longleftrightarrow> (\<exists>v. cell d i j = Some v \<and> \<bar>v\<bar> \<le> mLoD))
       \<and> (cell (dod_mask d mLoD) i j = None \<longleftrightarrow> cell d i j = None)"
  using assms by (cases "cell d i j") (auto simp: cell_dod_mask)

theorem threshold_mask_cell_witness:
  "(0::real) \<le> 1 \<and> inside [[Some 2, Some 1, None :: real option]] 0 1
   \<and> cell (dod_mask [[Some 2, Some 1, None]] 1) 0 1 = Some 0"
proof -
  have m: "(0::real) \<le> 1" by simp
  have h: "inside [[Some 2, Some 1, None :: real option]] 0 1"
    by (simp add: inside_def)
  have c: "cell [[Some 2, Some 1, None :: real option]] 0 1 = Some 1"
    by (simp add: cell_def)
  from threshold_mask_cell [OF m h] c h show ?thesis by simp
qed

text \<open>
  C6: at a cell where either elevation raster is no-data the difference is no-data, and
  at a cell where the binary classification or the difference is no-data the filtered
  difference is no-data: the cell is in the output and holds no number, in particular
  not zero.
\<close>

theorem nodata_propagation:
  "(inside later i j \<and> inside earlier i j
      \<and> (cell later i j = None \<or> cell earlier i j = None)
      \<longrightarrow> inside (dod later earlier) i j \<and> cell (dod later earlier) i j = None)
   \<and> (inside b i j \<and> inside d i j \<and> (cell b i j = None \<or> cell d i j = None)
      \<longrightarrow> inside (dod_filtered b d) i j \<and> cell (dod_filtered b d) i j = None)"
  by (auto simp: inside_dod cell_dod inside_dod_filtered cell_dod_filtered)

theorem nodata_propagation_witness:
  "inside [[Some 1, None :: real option]] 0 1 \<and> inside [[Some 2, Some (3::real)]] 0 1
   \<and> cell (dod [[Some 1, None]] [[Some 2, Some 3]]) 0 1 = None
   \<and> inside [[None :: int option]] 0 0 \<and> inside [[Some (7::real)]] 0 0
   \<and> cell (dod_filtered [[None]] [[Some 7]]) 0 0 = None"
  using nodata_propagation [of "[[Some 1, None]]" 0 1 "[[Some 2, Some 3]]" "[[None]]" "[[Some 7]]"]
    nodata_propagation [of "[[None]]" 0 0 "[[None]]" "[[None]]" "[[Some 7]]"]
  by (simp add: inside_def cell_def)

text \<open>
  C9: for every difference grid and thresholds \<open>0 \<le> m1 \<le> m2\<close>, the cells that are true
  in the mask at \<open>m2\<close> are among the cells that are true in the mask at \<open>m1\<close>: raising
  the threshold turns no false cell true.
\<close>

theorem threshold_monotone:
  assumes "0 \<le> m1" and "m1 \<le> m2"
  shows "true_cells (dod_mask D m2) \<subseteq> true_cells (dod_mask D m1)"
  using assms
  by (auto simp: true_cells_def inside_dod_mask cell_dod_mask split: option.splits if_splits)

theorem threshold_monotone_witness:
  "(0::real) \<le> 1/10 \<and> (1/10 :: real) \<le> 1/5
   \<and> true_cells (dod_mask [[Some (3/10)]] (1/5)) \<subseteq> true_cells (dod_mask [[Some (3/10)]] (1/10))
   \<and> (0, 0) \<in> true_cells (dod_mask [[Some (3/10)]] (1/5))"
proof -
  have h: "inside [[Some (3/10 :: real)]] 0 0"
    by (simp add: inside_def)
  have c: "cell [[Some (3/10 :: real)]] 0 0 = Some (3/10)"
    by (simp add: cell_def)
  have t: "(0, 0) \<in> true_cells (dod_mask [[Some (3/10)]] (1/5))"
    by (simp add: true_cells_def inside_dod_mask cell_dod_mask h c)
  from threshold_monotone [of "1/10" "1/5" "[[Some (3/10)]]"] t show ?thesis by simp
qed


section \<open>Properties of the run\<close>

text \<open>
  C2: in every run that completes, the name \<open>erosion_stats\<close> holds the statistics table,
  and every record of it has a Volume equal to its area times its median. The field is
  calculated on each record of the table, whatever their number: on an empty table there
  is nothing to calculate and the run completes all the same. Numbers are reals here, so
  the product is exact.
\<close>

theorem volume_identity:
  assumes "DoDfin e dem_later dem_earlier mLoD dod_raw dod_threshold_mask dod_reclass
             dod_thresholded erosion_mask erosion_stats = Inr e'"
  shows "\<exists>t. workspace e' erosion_stats = Some (Table t)
           \<and> (\<forall>r \<in> set t. Volume r = Some (AREA r * MEDIAN r))"
proof -
  from DoDfin_Inr_inputs [OF assms] obtain a b
    where ab: "Raster e dem_later = Inr a" "Raster e dem_earlier = Inr b" by auto
  from assms show ?thesis
    unfolding DoDfin_Inr [OF ab] by auto
qed

theorem volume_identity_witness:
  "\<exists>e'. run_two_dems 2 [[Some 1, Some (- 1), None]] [[Some 0, Some 0, Some 0]] (1/5) = Inr e'
     \<and> (\<exists>t. workspace e' ''stats'' = Some (Table t)
           \<and> (\<forall>r \<in> set t. Volume r = Some (AREA r * MEDIAN r))
           \<and> map Volume t = [Some 4, Some (- 4)])"
proof -
  obtain e' where e': "run_two_dems 2 [[Some 1, Some (- 1), None]] [[Some 0, Some 0, Some 0]] (1/5) = Inr e'"
    by (simp add: run_two_dems_Inr)
  have "produced (Inr e') ''stats'' = Some (Table
       [\<lparr>Value = 0, COUNT = 1, AREA = 4, MEAN = 1, MEDIAN = 1, Volume = Some 4\<rparr>,
        \<lparr>Value = 1, COUNT = 1, AREA = 4, MEAN = - 1, MEDIAN = - 1, Volume = Some (- 4)\<rparr>])"
    unfolding e' [symmetric]
    by (simp add: run_two_dems_Inr produced_def stage_defs table_defs)
  then have t: "workspace e' ''stats'' = Some (Table
       [\<lparr>Value = 0, COUNT = 1, AREA = 4, MEAN = 1, MEDIAN = 1, Volume = Some 4\<rparr>,
        \<lparr>Value = 1, COUNT = 1, AREA = 4, MEAN = - 1, MEDIAN = - 1, Volume = Some (- 4)\<rparr>])"
    by (simp add: produced_def)
  from volume_identity [OF e' [unfolded run_two_dems_def]] t e' show ?thesis
    by auto
qed

text \<open>
  C4 (as the specification states it): a run with a negative \<open>mLoD\<close> fails with an
  invalid-parameter error before the difference is used. The code checks nothing: with
  \<open>mLoD = - 1\<close> the run goes on and saves a threshold mask, here true at a cell of
  zero difference.
\<close>

theorem negative_mLoD_counterexample:
  "produced (run_two_dems 1 [[Some 5]] [[Some 5]] (- 1)) ''thres'' = Some (IntRaster [[Some 1]])"
  by (simp add: run_two_dems_Inr produced_def stage_defs)

text \<open>
  C4 (amended): a run with a negative \<open>mLoD\<close> on two existing rasters, with six distinct
  output names, raises no error and does not halt: it completes and leaves every one of
  its six artifacts in the workspace (raw difference, threshold mask, binary reclass,
  filtered difference, erosion mask, statistics table with Volume); the threshold mask
  it saves is true at every cell where the difference has a value.
\<close>

theorem negative_mLoD_runs:
  assumes "mLoD < 0"
    and "Raster e dem_later = Inr a" and "Raster e dem_earlier = Inr b"
    and "distinct [dod_raw, dod_threshold_mask, dod_reclass, dod_thresholded, erosion_mask,
                   erosion_stats]"
  shows "(\<exists>e'. DoDfin e dem_later dem_earlier mLoD dod_raw dod_threshold_mask dod_reclass
             dod_thresholded erosion_mask erosion_stats = Inr e'
     \<and> workspace e' dod_raw = Some (FloatRaster (dod a b))
     \<and> workspace e' dod_threshold_mask = Some (IntRaster (dod_mask (dod a b) mLoD))
     \<and> workspace e' dod_reclass = Some (IntRaster (dod_binary (dod_mask (dod a b) mLoD)))
     \<and> workspace e' dod_thresholded = Some (FloatRaster (run_filtered a b mLoD))
     \<and> workspace e' erosion_mask = Some (IntRaster (erosion (run_filtered a b mLoD)))
     \<and> workspace e' erosion_stats =
         Some (Table (map (\<lambda>r. r\<lparr>Volume := Some (AREA r * MEDIAN r)\<rparr>)
           (zonal_table (cellSize e) (erosion (run_filtered a b mLoD))
              (run_filtered a b mLoD)))))
     \<and> (\<forall>i j. inside (dod a b) i j \<and> cell (dod a b) i j \<noteq> None
            \<longrightarrow> inside (dod_mask (dod a b) mLoD) i j
              \<and> cell (dod_mask (dod a b) mLoD) i j = Some 1)"
proof
  show "\<exists>e'. DoDfin e dem_later dem_earlier mLoD dod_raw dod_threshold_mask dod_reclass
             dod_thresholded erosion_mask erosion_stats = Inr e'
     \<and> workspace e' dod_raw = Some (FloatRaster (dod a b))
     \<and> workspace e' dod_threshold_mask = Some (IntRaster (dod_mask (dod a b) mLoD))
     \<and> workspace e' dod_reclass = Some (IntRaster (dod_binary (dod_mask (dod a b) mLoD)))
     \<and> workspace e' dod_thresholded = Some (FloatRaster (run_filtered a b mLoD))
     \<and> workspace e' erosion_mask = Some (IntRaster (erosion (run_filtered a b mLoD)))
     \<and> workspace e' erosion_stats =
         Some (Table (map (\<lambda>r. r\<lparr>Volume := Some (AREA r * MEDIAN r)\<rparr>)
           (zonal_table (cellSize e) (erosion (run_filtered a b mLoD))
              (run_filtered a b mLoD))))"
    by (rule DoDfin_artifacts [OF assms(2,3,4)])
  show "\<forall>i j. inside (dod a b) i j \<and> cell (dod a b) i j \<noteq> None
            \<longrightarrow> inside (dod_mask (dod a b) mLoD) i j
              \<and> cell (dod_mask (dod a b) mLoD) i j = Some 1"
    using assms(1) by (auto simp: inside_dod_mask cell_dod_mask)
qed

theorem negative_mLoD_runs_witness:
  "(- 1 :: real) < 0
   \<and> Raster (two_dems 1 [[Some 5]] [[Some 5]]) ''later'' = Inr [[Some 5]]
   \<and> Raster (two_dems 1 [[Some 5]] [[Some 5]]) ''earlier'' = Inr [[Some 5]]
   \<and> distinct [''raw'', ''thres'', ''reclass'', ''fin'', ''ero'', ''stats'']
   \<and> (\<exists>e'. run_two_dems 1 [[Some 5]] [[Some 5]] (- 1) = Inr e'
          \<and> workspace e' ''raw'' = Some (FloatRaster [[Some 0]])
          \<and> workspace e' ''thres'' = Some (IntRaster [[Some 1]])
          \<and> workspace e' ''stats'' \<noteq> None)
   \<and> cell (dod_mask (dod [[Some 5]] [[Some 5]]) (- 1)) 0 0 = Some 1"
proof -
  have m: "(- 1 :: real) < 0" by simp
  have n: "distinct [''raw'', ''thres'', ''reclass'', ''fin'', ''ero'', ''stats'']" by simp
  have d: "dod [[Some 5]] [[Some 5]] = [[Some 0]]"
    by (simp add: stage_defs)
  have k: "dod_mask [[Some 0]] (- 1) = [[Some 1]]"
    by (simp add: stage_defs)
  have i: "inside [[Some (0::real)]] 0 0" and c: "cell [[Some (0::real)]] 0 0 \<noteq> None"
    by (simp_all add: inside_def cell_def)
  note t = negative_mLoD_runs [OF m Raster_two_dems n, of 1 "[[Some 5]]" "[[Some 5]]",
      folded run_two_dems_def, unfolded d k]
  from t obtain e' where e': "run_two_dems 1 [[Some 5]] [[Some 5]] (- 1) = Inr e'"
    and r: "workspace e' ''raw'' = Some (FloatRaster [[Some 0]])"
    and th: "workspace e' ''thres'' = Some (IntRaster [[Some 1]])"
    and st: "workspace e' ''stats'' \<noteq> None"
    by (elim conjE exE) simp
  from t i c have "cell [[Some (1::int)]] 0 0 = Some 1" by (simp add: cell_def)
  with e' r th st m n show ?thesis
    unfolding d k by (simp add: Raster_two_dems)
qed







text \<open>
  C8 (as the specification states it): when the erosion mask has no cell equal to 1 the
  statistics table is empty. On the code it is not: with one cell of significant rise the
  erosion mask is 0 there and the table has the record of zone 0, with its Volume.
\<close>

theorem no_erosion_counterexample:
  "produced (run_two_dems 2 [[Some 1]] [[Some 0]] (1/5)) ''ero'' = Some (IntRaster [[Some 0]])
   \<and> produced (run_two_dems 2 [[Some 1]] [[Some 0]] (1/5)) ''stats'' =
     Some (Table [\<lparr>Value = 0, COUNT = 1, AREA = 4, MEAN = 1, MEDIAN = 1, Volume = Some 4\<rparr>])"
  by (simp add: run_two_dems_Inr produced_def stage_defs table_defs)

text \<open>
  C8 (amended): when the erosion mask has no cell equal to 1, a run on two existing
  rasters completes without error; the table has no record of zone 1 (every record is
  that of zone 0), Volume is calculated on every record, and the table is empty exactly
  when the filtered difference has no cell with a value. The empty table of a zone raster
  without any value is the grouping by zone value taken at its word.
\<close>

theorem no_erosion_run:
  assumes "Raster e dem_later = Inr a" and "Raster e dem_earlier = Inr b"
    and "true_cells (erosion (run_filtered a b mLoD)) = {}"
  shows "\<exists>t. produced (DoDfin e dem_later dem_earlier mLoD dod_raw dod_threshold_mask
                 dod_reclass dod_thresholded erosion_mask erosion_stats) erosion_stats
               = Some (Table t)
     \<and> (\<forall>r \<in> set t. Value r = 0 \<and> Volume r = Some (AREA r * MEDIAN r))
     \<and> (t = [] \<longleftrightarrow>
          (\<forall>i j. inside (run_filtered a b mLoD) i j \<longrightarrow> cell (run_filtered a b mLoD) i j = None))"
proof -
  let ?F = "run_filtered a b mLoD"
  let ?T = "zonal_table (cellSize e) (erosion ?F) ?F"
  let ?t = "map (\<lambda>r. r\<lparr>Volume := Some (AREA r * MEDIAN r)\<rparr>) ?T"
  have p: "produced (DoDfin e dem_later dem_earlier mLoD dod_raw dod_threshold_mask
                 dod_reclass dod_thresholded erosion_mask erosion_stats) erosion_stats
               = Some (Table ?t)"
    by (rule produced_table [OF assms(1,2)])
  have v: "Value r = 0" if "r \<in> set ?T" for r
  proof -
    from zonal_row_zone [OF that] obtain i j
      where ij: "inside ?F i j" "cell (erosion ?F) i j = Some (Value r)" by auto
    with assms(3) have "Value r \<noteq> 1"
      by (auto simp: true_cells_def inside_erosion)
    with erosion_zone_01 [OF that] show ?thesis by auto
  qed
  have r: "\<forall>r \<in> set ?t. Value r = 0 \<and> Volume r = Some (AREA r * MEDIAN r)"
    using v by auto
  have "?T = [] \<longleftrightarrow> Value ` set ?T = {}" by simp
  also have "\<dots> \<longleftrightarrow> (\<forall>i j. inside ?F i j \<longrightarrow> cell (erosion ?F) i j = None)"
    unfolding zones_of_erosion by (rule no_zone_iff)
  also have "\<dots> \<longleftrightarrow> (\<forall>i j. inside ?F i j \<longrightarrow> cell ?F i j = None)"
    using erosion_None_iff [of ?F] by blast
  finally have "?t = [] \<longleftrightarrow> (\<forall>i j. inside ?F i j \<longrightarrow> cell ?F i j = None)" by simp
  with p r show ?thesis by blast
qed

theorem no_erosion_run_witness:
  "Raster (two_dems 2 [[Some 1]] [[Some 0]]) ''later'' = Inr [[Some 1]]
   \<and> Raster (two_dems 2 [[Some 1]] [[Some 0]]) ''earlier'' = Inr [[Some 0]]
   \<and> true_cells (erosion (run_filtered [[Some 1]] [[Some 0]] (1/5))) = {}
   \<and> (\<exists>t. produced (run_two_dems 2 [[Some 1]] [[Some 0]] (1/5)) ''stats'' = Some (Table t)
        \<and> (\<forall>r \<in> set t. Value r = 0 \<and> Volume r = Some (AREA r * MEDIAN r))
        \<and> t \<noteq> [])"
proof -
  have f: "run_filtered [[Some 1]] [[Some 0]] (1/5) = [[Some 1]]"
    by (simp add: stage_defs)
  have e: "erosion [[Some (1::real)]] = [[Some 0]]"
    by (simp add: stage_defs)
  have h: "true_cells (erosion (run_filtered [[Some 1]] [[Some 0]] (1/5))) = {}"
    unfolding f e by (auto simp: true_cells_def inside_single cell_def)
  have n: "\<not> (\<forall>i j. inside (run_filtered [[Some 1]] [[Some 0]] (1/5)) i j
          \<longrightarrow> cell (run_filtered [[Some 1]] [[Some 0]] (1/5)) i j = None)"
    unfolding f by (simp add: inside_single cell_def)
  from no_erosion_run [OF Raster_two_dems h, of 2 "''raw''" "''thres''" "''reclass''" "''fin''"
      "''ero''" "''stats''"] n h
  show ?thesis
    unfolding run_two_dems_def [symmetric] by (auto simp: Raster_two_dems)
qed

text \<open>
  C10: what a run leaves under each of its six output names is a function of the two
  input rasters (with their cell size), of \<open>mLoD\<close> and of the names: two runs from
  workspaces that agree on the two inputs leave the same dataset under every output
  name, whatever else the workspaces hold, earlier outputs included.
\<close>

theorem run_deterministic:
  assumes "cellSize e1 = cellSize e2"
    and "workspace e1 dem_later = workspace e2 dem_later"
    and "workspace e1 dem_earlier = workspace e2 dem_earlier"
    and "n \<in> {dod_raw, dod_threshold_mask, dod_reclass, dod_thresholded, erosion_mask,
               erosion_stats}"
  shows "produced (DoDfin e1 dem_later dem_earlier mLoD dod_raw dod_threshold_mask dod_reclass
                     dod_thresholded erosion_mask erosion_stats) n
       = produced (DoDfin e2 dem_later dem_earlier mLoD dod_raw dod_threshold_mask dod_reclass
                     dod_thresholded erosion_mask erosion_stats) n"
proof -
  have l: "Raster e1 dem_later = Raster e2 dem_later"
    and ea: "Raster e1 dem_earlier = Raster e2 dem_earlier"
    using assms(2,3) by (simp_all add: Raster_def)
  show ?thesis
  proof (cases "Raster e1 dem_later")
    case (Inl err)
    with l have "Raster e2 dem_later = Inl err" by simp
    with Inl show ?thesis by (simp add: DoDfin_def produced_def)
  next
    case a: (Inr a)
    show ?thesis
    proof (cases "Raster e1 dem_earlier")
      case (Inl err)
      with a l ea have "Raster e2 dem_later = Inr a" "Raster e2 dem_earlier = Inl err"
        by simp_all
      with a Inl show ?thesis by (simp add: DoDfin_def produced_def)
    next
      case b: (Inr b)
      from a b l ea have a2: "Raster e2 dem_later = Inr a" and b2: "Raster e2 dem_earlier = Inr b"
        by simp_all
      have w1: "produced (DoDfin e1 dem_later dem_earlier mLoD dod_raw dod_threshold_mask
                  dod_reclass dod_thresholded erosion_mask erosion_stats) n
          = run_outputs (workspace e1) (cellSize e1) a b mLoD dod_raw dod_threshold_mask
              dod_reclass dod_thresholded erosion_mask erosion_stats n"
        unfolding DoDfin_Inr [OF a b] run_outputs_def produced_def by simp
      have w2: "produced (DoDfin e2 dem_later dem_earlier mLoD dod_raw dod_threshold_mask
                  dod_reclass dod_thresholded erosion_mask erosion_stats) n
          = run_outputs (workspace e2) (cellSize e1) a b mLoD dod_raw dod_threshold_mask
              dod_reclass dod_thresholded erosion_mask erosion_stats n"
        unfolding DoDfin_Inr [OF a2 b2] run_outputs_def produced_def assms(1) by simp
      from assms(4) show ?thesis
        unfolding w1 w2 by (rule run_outputs_agree)
    qed
  qed
qed

theorem run_deterministic_witness:
  "cellSize (two_dems 2 [[Some 1]] [[Some 0]])
     = cellSize (save (two_dems 2 [[Some 1]] [[Some 0]]) ''stats'' (IntRaster [[Some 9]]))
   \<and> workspace (two_dems 2 [[Some 1]] [[Some 0]]) ''later''
     = workspace (save (two_dems 2 [[Some 1]] [[Some 0]]) ''stats'' (IntRaster [[Some 9]])) ''later''
   \<and> workspace (two_dems 2 [[Some 1]] [[Some 0]]) ''earlier''
     = workspace (save (two_dems 2 [[Some 1]] [[Some 0]]) ''stats'' (IntRaster [[Some 9]])) ''earlier''
   \<and> ''stats'' \<in> {''raw'', ''thres'', ''reclass'', ''fin'', ''ero'', ''stats''}
   \<and> produced (DoDfin (two_dems 2 [[Some 1]] [[Some 0]]) ''later'' ''earlier'' (1/5)
                 ''raw'' ''thres'' ''reclass'' ''fin'' ''ero'' ''stats'') ''stats''
     = produced (DoDfin (save (two_dems 2 [[Some 1]] [[Some 0]]) ''stats'' (IntRaster [[Some 9]]))
                 ''later'' ''earlier'' (1/5)
                 ''raw'' ''thres'' ''reclass'' ''fin'' ''ero'' ''stats'') ''stats''"
proof -
  let ?e1 = "two_dems 2 [[Some 1]] [[Some 0]]"
  let ?e2 = "save ?e1 ''stats'' (IntRaster [[Some 9]])"
  have c: "cellSize ?e1 = cellSize ?e2" by (simp add: save_def)
  have l: "workspace ?e1 ''later'' = workspace ?e2 ''later''" by (simp add: save_def)
  have e: "workspace ?e1 ''earlier'' = workspace ?e2 ''earlier''" by (simp add: save_def)
  have n: "''stats'' \<in> {''raw'', ''thres'', ''reclass'', ''fin'', ''ero'', ''stats''}" by simp
  from run_deterministic [OF c l e n, of "1/5"] c l e n show ?thesis by blast
qed

end
